theory Spec2Isabelle
  imports
    Complex_Main
    "HOL-Library.AList"
    "HOL-Library.Sublist"
    "HOL-Library.Char_ord"
    "HOL-Library.List_Lexorder"
begin

section \<open>The rqt joint trajectory controller plugin\<close>

text \<open>
  A shallow embedding of \<^verbatim>\<open>joint_trajectory_controller.py\<close>. Python strings are
  \<^typ>\<open>string\<close>, Python floats are idealised as \<^typ>\<open>real\<close>, dictionaries are
  association lists in insertion order (updated with \<^const>\<open>AList.update\<close>, which keeps the
  place of an existing key and appends a new one, as a Python \<^verbatim>\<open>dict\<close> does), and every
  exception the code can raise is a value of \<open>py_error\<close>.
\<close>

datatype py_error =
    AssertionError | KeyError | IndexError | StopIteration
  | TypeError | ValueError | ZeroDivisionError | AttributeError

subsection \<open>String helpers of the Python runtime\<close>

text \<open>\<^verbatim>\<open>s.split(c)\<close> for a one-character separator: one more segment than there are
  separators. The result is never empty, so the first branch of the \<open>case\<close> is never
  taken.\<close>

fun split :: "char \<Rightarrow> string \<Rightarrow> string list" where
  "split c [] = [[]]"
| "split c (x # xs) =
     (if x = c then [] # split c xs
      else (case split c xs of
              [] \<Rightarrow> [[x]]
            | seg # segs \<Rightarrow> (x # seg) # segs))"

text \<open>\<^verbatim>\<open>sep.join(segments)\<close>.\<close>

fun join :: "string \<Rightarrow> string list \<Rightarrow> string" where
  "join sep [] = []"
| "join sep [x] = x"
| "join sep (x # y # ys) = x @ sep @ join sep (y # ys)"

text \<open>\<^verbatim>\<open>s.rsplit(c, 1)\<close>: at most one split, at the last separator; a string without the
  separator comes back whole, as the only element.\<close>

definition rsplit1 :: "char \<Rightarrow> string \<Rightarrow> string list" where
  "rsplit1 c s =
     (if c \<in> set s
      then [rev (tl (dropWhile (\<lambda>x. x \<noteq> c) (rev s))), rev (takeWhile (\<lambda>x. x \<noteq> c) (rev s))]
      else [s])"

subsection \<open>Module-level functions\<close>

text \<open>
  \<^verbatim>\<open>
  def _resolve_controller_ns(cm_ns, controller_name):
      assert controller_name
      ns = cm_ns.rsplit("/", 1)[0]
      if ns != "/":
          ns += "/"
      ns += controller_name
      return ns
  \<close>
\<close>

definition resolve_controller_ns :: "string \<Rightarrow> string \<Rightarrow> py_error + string" where
  "resolve_controller_ns cm_ns controller_name =
     (if controller_name = [] then Inl AssertionError
      else
        let ns = hd (rsplit1 (CHR ''/'') cm_ns);
            ns = (if ns \<noteq> ''/'' then ns @ ''/'' else ns)
        in Inr (ns @ controller_name))"

text \<open>
  \<^verbatim>\<open>
  def _jtc_joint_names(jtc_info):
      joint_names = []
      for interface in jtc_info.required_state_interfaces:
          name = "/".join(interface.split("/")[:-1])
          if name not in joint_names:
              joint_names.append(name)
      return joint_names
  \<close>
  The function reads only \<^verbatim>\<open>required_state_interfaces\<close>; \<open>joint_names_loop\<close> is the loop
  with its accumulator.
\<close>

definition interface_joint :: "string \<Rightarrow> string" where
  "interface_joint interface = join ''/'' (butlast (split (CHR ''/'') interface))"

fun joint_names_loop :: "string list \<Rightarrow> string list \<Rightarrow> string list" where
  "joint_names_loop joint_names [] = joint_names"
| "joint_names_loop joint_names (interface # rest) =
     (let name = interface_joint interface
      in joint_names_loop
           (if name \<notin> set joint_names then joint_names @ [name] else joint_names) rest)"

definition jtc_joint_names_of :: "string list \<Rightarrow> string list" where
  "jtc_joint_names_of required_state_interfaces = joint_names_loop [] required_state_interfaces"

subsection \<open>Data of the plugin\<close>

text \<open>One entry of the controller listing (\<^verbatim>\<open>ControllerState\<close>); the code reads these four
  fields.\<close>

record controller_info =
  name :: string
  type :: string
  state :: string
  required_state_interfaces :: "string list"

text \<open>The limits record that \<^verbatim>\<open>get_joint_limits\<close> gives for one joint.\<close>

record joint_limits =
  min_position :: real
  max_position :: real
  max_velocity :: real

text \<open>An entry of \<^verbatim>\<open>_joint_pos\<close>: a dictionary that starts empty and may hold the keys
  \<^verbatim>\<open>"position"\<close> and \<^verbatim>\<open>"command"\<close>.\<close>

record joint_entry =
  position :: "real option"
  command :: "real option"

text \<open>The fields of \<^verbatim>\<open>JointTrajectoryControllerState\<close> that \<^verbatim>\<open>_state_cb\<close> reads:
  \<^verbatim>\<open>msg.joint_names\<close> and \<^verbatim>\<open>msg.feedback.positions\<close>.\<close>

record controller_state_msg =
  msg_joint_names :: "string list"
  feedback_positions :: "real list"

text \<open>\<^verbatim>\<open>JointTrajectoryPoint\<close> and \<^verbatim>\<open>JointTrajectory\<close>; \<open>time_from_start\<close> is the number of
  seconds handed to \<^verbatim>\<open>rclpy.duration.Duration\<close>.\<close>

record joint_trajectory_point =
  positions :: "real list"
  time_from_start :: real

record joint_trajectory =
  traj_joint_names :: "string list"
  points :: "joint_trajectory_point list"

text \<open>
  The members of the plugin object. Where the code holds an object of another module,
  the record holds what the code observes of it:
  \<^item> \<open>jtc_name\<close>, \<open>cm_ns\<close>: the initial value \<^verbatim>\<open>[]\<close> and the empty string are both falsy
    and are both \<open>[]\<close> here;
  \<^item> \<open>list_controllers\<close>: whether \<^verbatim>\<open>_list_controllers\<close> is a \<^verbatim>\<open>ControllerLister\<close>
    (\<open>True\<close>) or \<^verbatim>\<open>None\<close>; what the lister returns is an argument of each function that
    calls it;
  \<^item> \<open>update_cmd_timer\<close>, \<open>update_act_pos_timer\<close>: whether the \<^verbatim>\<open>QTimer\<close> is running;
  \<^item> \<open>enable_button\<close>: the checked state of \<^verbatim>\<open>_widget.enable_button\<close>;
  \<^item> \<open>jtc_combo\<close>: the items of \<^verbatim>\<open>_widget.jtc_combo\<close>;
  \<^item> \<open>cmd_pub\<close>, \<open>state_sub\<close>: the topic of the publisher and of the subscription, or
    \<open>None\<close>;
  \<^item> \<open>executor\<close>: whether \<^verbatim>\<open>_executor\<close> is set;
  \<^item> \<open>state_signal_connected\<close>: whether \<^verbatim>\<open>jointStateChanged\<close> is connected to
    \<^verbatim>\<open>_on_joint_state_change\<close>;
  \<^item> \<open>limit_lookups\<close>: the trace of the calls of \<^verbatim>\<open>get_joint_limits\<close>, each with the
    joint names it was asked for.
\<close>

record jtc_state =
  jtc_name :: string
  cm_ns :: string
  joint_pos :: "(string \<times> joint_entry) list"
  joint_names :: "string list"
  robot_joint_limits :: "(string \<times> joint_limits) list"
  speed_scale :: real
  list_controllers :: bool
  update_cmd_timer :: bool
  update_act_pos_timer :: bool
  enable_button :: bool
  jtc_combo :: "string list"
  cmd_pub :: "string option"
  state_sub :: "string option"
  executor :: bool
  state_signal_connected :: bool
  limit_lookups :: "string list list"

text \<open>A handler either returns or raises; in both cases the members are as the handler
  left them.\<close>

datatype outcome = Returned jtc_state | Raised py_error jtc_state

fun state_of :: "outcome \<Rightarrow> jtc_state" where
  "state_of (Returned s) = s"
| "state_of (Raised e s) = s"

text \<open>The joint-limits lookup \<^verbatim>\<open>get_joint_limits(node, joint_names)\<close> of
  \<^verbatim>\<open>joint_limits_urdf\<close> is an argument: a function from the names asked for to the
  dictionary it returns.\<close>

type_synonym limits_lookup = "string list \<Rightarrow> (string \<times> joint_limits) list"

text \<open>Class constants.\<close>

definition cmd_pub_freq :: real where
  "cmd_pub_freq = 10"

definition min_traj_dur :: real where
  "min_traj_dur = 5 / cmd_pub_freq"

text \<open>The members after \<^verbatim>\<open>__init__\<close>. The speed scale is
  \<^verbatim>\<open>speed_scaling.value() / slider.maximum()\<close> of the \<^verbatim>\<open>DoubleEditor\<close> widget and is an
  argument; the enable button starts unchecked.\<close>

definition init_state :: "real \<Rightarrow> jtc_state" where
  "init_state initial_speed_scale =
     \<lparr> jtc_name = [], cm_ns = [], joint_pos = [], joint_names = [],
       robot_joint_limits = [], speed_scale = initial_speed_scale,
       list_controllers = False, update_cmd_timer = False, update_act_pos_timer = False,
       enable_button = False, jtc_combo = [], cmd_pub = None, state_sub = None,
       executor = False, state_signal_connected = False, limit_lookups = [] \<rparr>"

subsection \<open>Dictionaries\<close>

text \<open>\<^verbatim>\<open>d.update(other)\<close>: the items of \<open>other\<close> are stored one by one.\<close>

definition dict_update :: "('k \<times> 'v) list \<Rightarrow> ('k \<times> 'v) list \<Rightarrow> ('k \<times> 'v) list" where
  "dict_update d other = foldl (\<lambda>d kv. AList.update (fst kv) (snd kv) d) d other"

text \<open>\<^verbatim>\<open>key in d\<close>.\<close>

definition dict_has :: "('k \<times> 'v) list \<Rightarrow> 'k \<Rightarrow> bool" where
  "dict_has d k = (map_of d k \<noteq> None)"

text \<open>\<^verbatim>\<open>max(xs)\<close> on a nonempty list.\<close>

definition py_max :: "real list \<Rightarrow> real" where
  "py_max xs = foldl max (hd xs) (tl xs)"

subsection \<open>Controller discovery\<close>

text \<open>Modelled from the spec: \<^verbatim>\<open>filter_by_type\<close> and \<^verbatim>\<open>filter_by_state\<close> of the module
  \<^verbatim>\<open>utils\<close>, which is not part of the sources at hand. The specification has the listing
  filtered ``to those whose type string contains a configured marker substring and whose
  state equals "active"''.\<close>

definition filter_by_type :: "controller_info list \<Rightarrow> string \<Rightarrow> bool \<Rightarrow> controller_info list" where
  "filter_by_type controller_list ctrl_type match_substring =
     filter (\<lambda>c. if match_substring then sublist ctrl_type (type c) else type c = ctrl_type)
       controller_list"

definition filter_by_state :: "controller_info list \<Rightarrow> string \<Rightarrow> controller_info list" where
  "filter_by_state controller_list ctrl_state = filter (\<lambda>c. state c = ctrl_state) controller_list"

definition jtc_joint_names :: "controller_info \<Rightarrow> string list" where
  "jtc_joint_names jtc_info = jtc_joint_names_of (required_state_interfaces jtc_info)"

text \<open>
  \<^verbatim>\<open>
  def _running_jtc_info(self):
      controller_list = self._list_controllers()
      jtc_list = filter_by_type(
          controller_list, "JointTrajectoryController", match_substring=True)
      running_jtc_list = filter_by_state(jtc_list, "active")
      return running_jtc_list
  \<close>
  Calling \<^verbatim>\<open>None\<close> raises \<^verbatim>\<open>TypeError\<close>; \<open>controller_list\<close> is what the lister returns.
\<close>

definition running_jtc_info :: "jtc_state \<Rightarrow> controller_info list \<Rightarrow> py_error + controller_info list" where
  "running_jtc_info s controller_list =
     (if \<not> list_controllers s then Inl TypeError
      else Inr (filter_by_state
                  (filter_by_type controller_list ''JointTrajectoryController'' True)
                  ''active''))"

text \<open>The priming loop of \<^verbatim>\<open>_update_jtc_list\<close>:
  \<^verbatim>\<open>
  for jtc_info in running_jtc:
      self._robot_joint_limits.update(
          get_joint_limits(self._node, _jtc_joint_names(jtc_info)))
  \<close>
\<close>

fun fetch_limits :: "limits_lookup \<Rightarrow> controller_info list \<Rightarrow> jtc_state \<Rightarrow> jtc_state" where
  "fetch_limits get_joint_limits [] s = s"
| "fetch_limits get_joint_limits (jtc_info # rest) s =
     fetch_limits get_joint_limits rest
       (s\<lparr> robot_joint_limits :=
              dict_update (robot_joint_limits s) (get_joint_limits (jtc_joint_names jtc_info)),
           limit_lookups := limit_lookups s @ [jtc_joint_names jtc_info] \<rparr>)"

text \<open>\<^verbatim>\<open>all(name in self._robot_joint_limits for name in _jtc_joint_names(jtc_info))\<close>\<close>

definition has_limits :: "jtc_state \<Rightarrow> controller_info \<Rightarrow> bool" where
  "has_limits s jtc_info = list_all (dict_has (robot_joint_limits s)) (jtc_joint_names jtc_info)"

text \<open>
  \<^verbatim>\<open>
  def _update_jtc_list(self):
      if not self._list_controllers:
          self._widget.jtc_combo.clear()
          return
      running_jtc = self._running_jtc_info()
      if running_jtc and not self._robot_joint_limits:
          self._robot_joint_limits = {}
          for jtc_info in running_jtc: ...
      valid_jtc = []
      if self._robot_joint_limits:
          for jtc_info in running_jtc:
              has_limits = all(...)
              if has_limits:
                  valid_jtc.append(jtc_info)
      valid_jtc_names = [data.name for data in valid_jtc]
      update_combo(self._widget.jtc_combo, sorted(valid_jtc_names))
  \<close>
  \<^verbatim>\<open>update_combo\<close> replaces the items of the combo box by its second argument. A change
  of the selected item that follows from it is the separate event \<open>on_jtc_change\<close>.
\<close>

definition update_jtc_list :: "jtc_state \<Rightarrow> controller_info list \<Rightarrow> limits_lookup \<Rightarrow> outcome" where
  "update_jtc_list s controller_list get_joint_limits =
     (if \<not> list_controllers s then Returned (s\<lparr>jtc_combo := []\<rparr>)
      else
        case running_jtc_info s controller_list of
          Inl e \<Rightarrow> Raised e s
        | Inr running_jtc \<Rightarrow>
            let s1 = (if running_jtc \<noteq> [] \<and> robot_joint_limits s = []
                      then fetch_limits get_joint_limits running_jtc (s\<lparr>robot_joint_limits := []\<rparr>)
                      else s);
                valid_jtc = (if robot_joint_limits s1 \<noteq> []
                             then filter (has_limits s1) running_jtc else []);
                valid_jtc_names = map name valid_jtc
            in Returned (s1\<lparr>jtc_combo := sort valid_jtc_names\<rparr>))"

subsection \<open>Monitor and control mode\<close>

text \<open>
  \<^verbatim>\<open>
  def _on_jtc_enabled(self, val):
      if not self._jtc_name:
          self._widget.enable_button.setChecked(False)
          return
      for joint_widget in self._joint_widgets(): joint_widget.setEnabled(val)
      self._speed_scaling_widget.setEnabled(val)
      if val:
          self._update_act_pos_timer.stop()
          self._update_cmd_timer.start()
      else:
          self._update_cmd_timer.stop()
          self._update_act_pos_timer.start()
  \<close>
  The handler is connected to the \<^verbatim>\<open>toggled\<close> signal of the button. In the first branch
  \<^verbatim>\<open>setChecked(False)\<close> on a checked button emits the signal and enters the handler once
  more; the nested call takes the same branch with the button already unchecked and
  returns. The enabled flags of the widgets are not part of the state.
\<close>

definition on_jtc_enabled :: "jtc_state \<Rightarrow> bool \<Rightarrow> jtc_state" where
  "on_jtc_enabled s val =
     (if jtc_name s = [] then s\<lparr>enable_button := False\<rparr>
      else if val then s\<lparr>update_act_pos_timer := False, update_cmd_timer := True\<rparr>
      else s\<lparr>update_cmd_timer := False, update_act_pos_timer := True\<rparr>)"

text \<open>\<^verbatim>\<open>enable_button.setChecked(val)\<close>, and a click of the user that brings the button to
  \<open>val\<close>: the signal is emitted only when the checked state changes.\<close>

definition set_checked :: "jtc_state \<Rightarrow> bool \<Rightarrow> jtc_state" where
  "set_checked s val =
     (if enable_button s = val then s else on_jtc_enabled (s\<lparr>enable_button := val\<rparr>) val)"

subsection \<open>Binding to a controller\<close>

text \<open>
  \<^verbatim>\<open>
  def _unload_jtc(self):
      try: self.jointStateChanged.disconnect(self._on_joint_state_change)
      except Exception: pass
      self._unregister_state_sub()
      self._unregister_cmd_pub()
      self._unregister_executor()
      ...                                   # the joint widgets are removed
      self._joint_names = []
      self._joint_pos = {}
      self._widget.enable_button.setChecked(False)
  \<close>
\<close>

definition unload_jtc :: "jtc_state \<Rightarrow> jtc_state" where
  "unload_jtc s =
     set_checked
       (s\<lparr> state_signal_connected := False, state_sub := None, cmd_pub := None,
           executor := False, joint_names := [], joint_pos := [] \<rparr>)
       False"

text \<open>
  \<^verbatim>\<open>
  def _load_jtc(self):
      running_jtc = self._running_jtc_info()
      self._joint_names = next(
          _jtc_joint_names(x) for x in running_jtc if x.name == self._jtc_name)
      for name in self._joint_names:
          self._joint_pos[name] = {}
      try: ...                              # one editor widget per joint
      except Exception: ...                 # printed and swallowed
      self._on_jtc_enabled(False)
      jtc_ns = _resolve_controller_ns(self._cm_ns, self._jtc_name)
      state_topic = jtc_ns + "/controller_state"
      cmd_topic = jtc_ns + "/joint_trajectory"
      self._state_sub = self._node.create_subscription(...)
      self._cmd_pub = self._node.create_publisher(...)
      self.jointStateChanged.connect(self._on_joint_state_change)
      self._executor = ...
  \<close>
  \<^verbatim>\<open>next\<close> on a generator with no element raises \<^verbatim>\<open>StopIteration\<close>.
\<close>

definition load_jtc :: "jtc_state \<Rightarrow> controller_info list \<Rightarrow> outcome" where
  "load_jtc s controller_list =
     (case running_jtc_info s controller_list of
        Inl e \<Rightarrow> Raised e s
      | Inr running_jtc \<Rightarrow>
          (case find (\<lambda>x. name x = jtc_name s) running_jtc of
             None \<Rightarrow> Raised StopIteration s
           | Some x \<Rightarrow>
               let s1 = s\<lparr>joint_names := jtc_joint_names x\<rparr>;
                   s2 = s1\<lparr>joint_pos :=
                          foldl (\<lambda>d jname. AList.update jname \<lparr>position = None, command = None\<rparr> d)
                            (joint_pos s1) (joint_names s1)\<rparr>;
                   s3 = on_jtc_enabled s2 False
               in (case resolve_controller_ns (cm_ns s3) (jtc_name s3) of
                     Inl e \<Rightarrow> Raised e s3
                   | Inr jtc_ns \<Rightarrow>
                       Returned
                         (s3\<lparr> state_sub := Some (jtc_ns @ ''/controller_state''),
                              cmd_pub := Some (jtc_ns @ ''/joint_trajectory''),
                              state_signal_connected := True,
                              executor := True \<rparr>))))"

text \<open>
  \<^verbatim>\<open>
  def _on_jtc_change(self, jtc_name):
      self._unload_jtc()
      self._jtc_name = jtc_name
      if self._jtc_name:
          self._load_jtc()
  \<close>
\<close>

definition on_jtc_change :: "jtc_state \<Rightarrow> string \<Rightarrow> controller_info list \<Rightarrow> outcome" where
  "on_jtc_change s new_jtc_name controller_list =
     (let s1 = unload_jtc s;
          s2 = s1\<lparr>jtc_name := new_jtc_name\<rparr>
      in if jtc_name s2 \<noteq> [] then load_jtc s2 controller_list else Returned s2)"

text \<open>
  \<^verbatim>\<open>
  def _on_cm_change(self, cm_ns):
      self._cm_ns = cm_ns
      if cm_ns:
          self._list_controllers = ControllerLister(cm_ns)
          self._widget.jtc_combo.clear()
          self._update_jtc_list()
      else:
          self._list_controllers = None
  \<close>
  A change of the selected item that \<^verbatim>\<open>jtc_combo.clear()\<close> or \<^verbatim>\<open>update_combo\<close> brings
  about is the separate event \<open>on_jtc_change\<close>; it writes none of the members that this
  handler reads or writes.
\<close>

definition on_cm_change ::
    "jtc_state \<Rightarrow> string \<Rightarrow> controller_info list \<Rightarrow> limits_lookup \<Rightarrow> outcome" where
  "on_cm_change s new_cm_ns controller_list get_joint_limits =
     (let s1 = s\<lparr>cm_ns := new_cm_ns\<rparr>
      in if new_cm_ns \<noteq> []
         then update_jtc_list (s1\<lparr>list_controllers := True, jtc_combo := []\<rparr>)
                controller_list get_joint_limits
         else Returned (s1\<lparr>list_controllers := False\<rparr>))"

subsection \<open>Feedback\<close>

text \<open>
  \<^verbatim>\<open>
  def _on_joint_state_change(self, current_pos):
      assert len(current_pos) == len(self._joint_pos)
      for name in current_pos.keys():
          self._joint_pos[name]["position"] = current_pos[name]
  \<close>
  \<open>joint_state_loop\<close> is the loop; a name that \<^verbatim>\<open>_joint_pos\<close> does not hold raises
  \<^verbatim>\<open>KeyError\<close> and keeps what the loop has written so far.
\<close>

fun joint_state_loop ::
    "(string \<times> joint_entry) list \<Rightarrow> (string \<times> real) list \<Rightarrow> py_error option \<times> (string \<times> joint_entry) list" where
  "joint_state_loop d [] = (None, d)"
| "joint_state_loop d ((jname, pos) # rest) =
     (case map_of d jname of
        None \<Rightarrow> (Some KeyError, d)
      | Some entry \<Rightarrow> joint_state_loop (AList.update jname (entry\<lparr>position := Some pos\<rparr>) d) rest)"

definition on_joint_state_change :: "jtc_state \<Rightarrow> (string \<times> real) list \<Rightarrow> outcome" where
  "on_joint_state_change s current_pos =
     (if length current_pos \<noteq> length (joint_pos s) then Raised AssertionError s
      else
        case joint_state_loop (joint_pos s) current_pos of
          (None, d) \<Rightarrow> Returned (s\<lparr>joint_pos := d\<rparr>)
        | (Some e, d) \<Rightarrow> Raised e (s\<lparr>joint_pos := d\<rparr>))"

text \<open>
  \<^verbatim>\<open>
  def _state_cb(self, msg):
      current_pos = {}
      for i in range(len(msg.joint_names)):
          joint_name = msg.joint_names[i]
          joint_pos = msg.feedback.positions[i]
          current_pos[joint_name] = joint_pos
      self.jointStateChanged.emit(current_pos)
  \<close>
  The loop walks the names; \<^verbatim>\<open>positions[i]\<close> raises \<^verbatim>\<open>IndexError\<close> when the positions are
  used up. The signal runs \<^verbatim>\<open>_on_joint_state_change\<close> when it is connected; the callback
  belongs to the executor thread and the slot to the user-interface thread, and here the
  slot runs as soon as the signal is emitted.
\<close>

fun state_cb_loop ::
    "(string \<times> real) list \<Rightarrow> string list \<Rightarrow> real list \<Rightarrow> py_error + (string \<times> real) list" where
  "state_cb_loop current_pos [] ps = Inr current_pos"
| "state_cb_loop current_pos (joint_name # ns) [] = Inl IndexError"
| "state_cb_loop current_pos (joint_name # ns) (p # ps) =
     state_cb_loop (AList.update joint_name p current_pos) ns ps"

definition state_cb :: "jtc_state \<Rightarrow> controller_state_msg \<Rightarrow> outcome" where
  "state_cb s msg =
     (case state_cb_loop [] (msg_joint_names msg) (feedback_positions msg) of
        Inl e \<Rightarrow> Raised e s
      | Inr current_pos \<Rightarrow>
          if state_signal_connected s then on_joint_state_change s current_pos
          else Returned s)"

subsection \<open>Commands\<close>

text \<open>
  \<^verbatim>\<open>
  def _update_single_cmd_cb(self, val, name):
      self._joint_pos[name]["command"] = val
  \<close>
\<close>

definition update_single_cmd_cb :: "jtc_state \<Rightarrow> real \<Rightarrow> string \<Rightarrow> outcome" where
  "update_single_cmd_cb s val jname =
     (case map_of (joint_pos s) jname of
        None \<Rightarrow> Raised KeyError s
      | Some entry \<Rightarrow>
          Returned (s\<lparr>joint_pos := AList.update jname (entry\<lparr>command := Some val\<rparr>) (joint_pos s)\<rparr>))"

text \<open>
  \<^verbatim>\<open>
  def _update_cmd_cb(self):
      dur = []
      traj = JointTrajectory()
      traj.joint_names = self._joint_names
      point = JointTrajectoryPoint()
      for name in traj.joint_names:
          pos = self._joint_pos[name]["position"]
          cmd = pos
          try:
              cmd = self._joint_pos[name]["command"]
          except KeyError:
              pass
          max_vel = self._robot_joint_limits[name]["max_velocity"]
          dur.append(max(abs(cmd - pos) / max_vel, self._min_traj_dur))
          point.positions.append(cmd)
      duration = rclpy.duration.Duration(seconds=(max(dur) / self._speed_scale))
      point.time_from_start = duration.to_msg()
      traj.points.append(point)
      self._cmd_pub.publish(traj)
  \<close>
  \<open>update_cmd_loop\<close> is the loop, with \<open>dur\<close> and \<open>point.positions\<close> as accumulators. The
  result of \<open>update_cmd_cb\<close> is the message handed to \<^verbatim>\<open>publish\<close>, or the exception raised
  before a message is published; the members of the plugin are only read.
\<close>

fun update_cmd_loop ::
    "jtc_state \<Rightarrow> string list \<Rightarrow> real list \<Rightarrow> real list \<Rightarrow> py_error + (real list \<times> real list)" where
  "update_cmd_loop s [] dur pts = Inr (dur, pts)"
| "update_cmd_loop s (jname # rest) dur pts =
     (case map_of (joint_pos s) jname of
        None \<Rightarrow> Inl KeyError
      | Some entry \<Rightarrow>
          (case position entry of
             None \<Rightarrow> Inl KeyError
           | Some pos \<Rightarrow>
               let cmd = (case command entry of Some c \<Rightarrow> c | None \<Rightarrow> pos)
               in (case map_of (robot_joint_limits s) jname of
                     None \<Rightarrow> Inl KeyError
                   | Some limits \<Rightarrow>
                       let max_vel = max_velocity limits
                       in if max_vel = 0 then Inl ZeroDivisionError
                          else update_cmd_loop s rest
                                 (dur @ [max (\<bar>cmd - pos\<bar> / max_vel) min_traj_dur])
                                 (pts @ [cmd]))))"

definition update_cmd_cb :: "jtc_state \<Rightarrow> py_error + joint_trajectory" where
  "update_cmd_cb s =
     (case update_cmd_loop s (joint_names s) [] [] of
        Inl e \<Rightarrow> Inl e
      | Inr (dur, pts) \<Rightarrow>
          if dur = [] then Inl ValueError
          else if speed_scale s = 0 then Inl ZeroDivisionError
          else
            let point = \<lparr>positions = pts, time_from_start = py_max dur / speed_scale s\<rparr>;
                traj = \<lparr>traj_joint_names = joint_names s, points = [point]\<rparr>
            in (case cmd_pub s of
                  None \<Rightarrow> Inl AttributeError
                | Some topic \<Rightarrow> Inr traj))"

subsection \<open>Speed scaling and shutdown\<close>

text \<open>
  \<^verbatim>\<open>
  def _on_speed_scaling_change(self, val):
      self._speed_scale = val / self._speed_scaling_widget.slider.maximum()
  \<close>
  The maximum of the slider belongs to the \<^verbatim>\<open>DoubleEditor\<close> widget and is an argument.
\<close>

definition on_speed_scaling_change :: "jtc_state \<Rightarrow> real \<Rightarrow> int \<Rightarrow> outcome" where
  "on_speed_scaling_change s val slider_maximum =
     (if slider_maximum = 0 then Raised ZeroDivisionError s
      else Returned (s\<lparr>speed_scale := val / of_int slider_maximum\<rparr>))"

text \<open>
  \<^verbatim>\<open>
  def shutdown_plugin(self):
      self._update_cmd_timer.stop()
      self._update_act_pos_timer.stop()
      self._update_cm_list_timer.stop()
      self._update_jtc_list_timer.stop()
      self._unregister_state_sub()
      self._unregister_cmd_pub()
      self._unregister_executor()
  \<close>
  The two discovery timers are not part of the state: their ticks are events.
\<close>

definition shutdown_plugin :: "jtc_state \<Rightarrow> jtc_state" where
  "shutdown_plugin s =
     s\<lparr> update_cmd_timer := False, update_act_pos_timer := False,
        state_sub := None, cmd_pub := None, executor := False \<rparr>"

subsection \<open>Runs of the plugin\<close>

text \<open>
  The handlers that write members of the plugin, as events. A handler that raises leaves
  the members as they are at that point, and the next event finds them so.
  \<^item> \<open>CmChange\<close>, \<open>JtcChange\<close>: a new selection in the manager and in the controller combo
    box; \<open>JtcChange []\<close> unbinds;
  \<^item> \<open>EnableToggled\<close>: the enable button is brought to the given checked state;
  \<^item> \<open>JtcListTimeout\<close>: a discovery cycle;
  \<^item> \<open>StateMsg\<close>: a feedback report; \<open>SingleCmd\<close>: an edit of a joint's command;
  \<^item> \<open>SpeedScalingChange\<close>: an edit of the speed scale; \<open>Shutdown\<close>: the plugin is closed.
  Each event carries what the outside world answers while it is handled. The two
  command and refresh timer callbacks write no member and are no events.
\<close>

datatype event =
    CmChange string "controller_info list" limits_lookup
  | JtcChange string "controller_info list"
  | EnableToggled bool
  | JtcListTimeout "controller_info list" limits_lookup
  | StateMsg controller_state_msg
  | SingleCmd real string
  | SpeedScalingChange real int
  | Shutdown

fun handle :: "jtc_state \<Rightarrow> event \<Rightarrow> outcome" where
  "handle s (CmChange ns cl gjl) = on_cm_change s ns cl gjl"
| "handle s (JtcChange n cl) = on_jtc_change s n cl"
| "handle s (EnableToggled val) = Returned (set_checked s val)"
| "handle s (JtcListTimeout cl gjl) = update_jtc_list s cl gjl"
| "handle s (StateMsg msg) = state_cb s msg"
| "handle s (SingleCmd val jname) = update_single_cmd_cb s val jname"
| "handle s (SpeedScalingChange val slider_maximum) = on_speed_scaling_change s val slider_maximum"
| "handle s Shutdown = Returned (shutdown_plugin s)"

definition run :: "jtc_state \<Rightarrow> event list \<Rightarrow> jtc_state" where
  "run s events = foldl (\<lambda>s ev. state_of (handle s ev)) s events"

text \<open>A session is bound when \<^verbatim>\<open>_load_jtc\<close> has created its publisher and subscription.\<close>

definition bound :: "jtc_state \<Rightarrow> bool" where
  "bound s = (cmd_pub s \<noteq> None \<and> state_sub s \<noteq> None)"

subsection \<open>Reference readings of the specification's words\<close>

text \<open>The parent namespace as the specification words it for a namespace with a slash
  (everything from the last slash on is dropped), and the reading of ``the last
  slash-separated segment is dropped'' through \<open>split\<close> and \<open>join\<close>.\<close>

definition drop_last_segment :: "string \<Rightarrow> string" where
  "drop_last_segment s = join ''/'' (butlast (split (CHR ''/'') s))"

text \<open>Deduplication that keeps each element at the place of its first appearance.\<close>

fun dedup_first :: "'a list \<Rightarrow> 'a list" where
  "dedup_first [] = []"
| "dedup_first (x # xs) = x # dedup_first (filter (\<lambda>y. y \<noteq> x) xs)"

subsection \<open>Readings of the runtime-state table\<close>

text \<open>What the runtime-state table holds for a joint: its position and its command, each
  absent when the table has no entry for the joint or the entry lacks the key.\<close>

definition joint_position :: "jtc_state \<Rightarrow> string \<Rightarrow> real option" where
  "joint_position s jname =
     (case map_of (joint_pos s) jname of None \<Rightarrow> None | Some entry \<Rightarrow> position entry)"

definition joint_command :: "jtc_state \<Rightarrow> string \<Rightarrow> real option" where
  "joint_command s jname =
     (case map_of (joint_pos s) jname of None \<Rightarrow> None | Some entry \<Rightarrow> command entry)"




subsection \<open>An invariant of the handlers\<close>


subsection \<open>Concrete sessions and answers of the outside world\<close>

text \<open>The members as they are after the controller \<open>c\<close> of the manager
  \<open>/controller_manager\<close> has been selected and loaded, in monitor mode, with the given
  joint names, runtime-state table, joint limits and speed scale.\<close>

definition session_of ::
    "string list \<Rightarrow> (string \<times> joint_entry) list \<Rightarrow> (string \<times> joint_limits) list \<Rightarrow> real \<Rightarrow> jtc_state" where
  "session_of names table limits scale =
     (init_state scale)
       \<lparr> jtc_name := ''c'', cm_ns := ''/controller_manager'', joint_pos := table,
         joint_names := names, robot_joint_limits := limits, list_controllers := True,
         update_act_pos_timer := True, jtc_combo := [''c''],
         cmd_pub := Some ''/c/joint_trajectory'', state_sub := Some ''/c/controller_state'',
         executor := True, state_signal_connected := True \<rparr>"

text \<open>Answers of the outside world used in concrete runs: two entries of the controller
  listing, an active trajectory controller \<open>c\<close> on the joint \<open>j1\<close> and an active
  trajectory controller \<open>d\<close> on the joint \<open>j2\<close>; a joint-limits lookup that knows every
  joint it is asked for, one that knows only \<open>j1\<close>, and one that knows none.\<close>

definition jtc_c :: controller_info where
  "jtc_c = \<lparr> name = ''c'', type = ''joint_trajectory_controller/JointTrajectoryController'',
             state = ''active'',
             required_state_interfaces = [''j1/position'', ''j1/velocity''] \<rparr>"

definition jtc_d :: controller_info where
  "jtc_d = \<lparr> name = ''d'', type = ''joint_trajectory_controller/JointTrajectoryController'',
             state = ''active'',
             required_state_interfaces = [''j2/position'', ''j2/velocity''] \<rparr>"

definition limits_for_all :: limits_lookup where
  "limits_for_all names =
     map (\<lambda>jname. (jname, \<lparr>min_position = - 3, max_position = 3, max_velocity = 2\<rparr>)) names"

definition limits_for_j1 :: limits_lookup where
  "limits_for_j1 names =
     (if ''j1'' \<in> set names
      then [(''j1'', \<lparr>min_position = - 3, max_position = 3, max_velocity = 2\<rparr>)]
      else [])"

definition limits_for_none :: limits_lookup where
  "limits_for_none names = []"

section \<open>Properties\<close>

subsection \<open>Splitting and joining\<close>

lemma split_no_sep: "c \<notin> set b \<Longrightarrow> split c b = [b]"
  by (induction b) auto

lemma split_not_Nil: "split c s \<noteq> []"
  by (induction s) (auto split: list.splits)

lemma split_last_sep: "c \<notin> set b \<Longrightarrow> split c (a @ c # b) = split c a @ [b]"
  by (induction a) (auto simp: split_no_sep split_not_Nil split: list.splits)

lemma join_Cons: "ys \<noteq> [] \<Longrightarrow> join sep (x # ys) = x @ sep @ join sep ys"
  by (cases ys) auto

lemma join_split: "join [c] (split c s) = s"
proof (induction s)
  case Nil
  show ?case by simp
next
  case (Cons x xs)
  have ne: "split c xs \<noteq> []" by (rule split_not_Nil)
  then obtain h t where ht: "split c xs = h # t" by (cases "split c xs") auto
  show ?case
  proof (cases "x = c")
    case True
    then show ?thesis using Cons ne by (simp add: join_Cons)
  next
    case False
    then show ?thesis using Cons ht by (cases t) auto
  qed
qed

lemma join_butlast_split_sep:
  "c \<notin> set b \<Longrightarrow> join [c] (butlast (split c (a @ c # b))) = a"
  by (simp add: split_last_sep join_split)

lemma join_butlast_split_no_sep:
  "c \<notin> set s \<Longrightarrow> join [c] (butlast (split c s)) = []"
  by (simp add: split_no_sep)

lemma drop_last_segment_sep:
  "CHR ''/'' \<notin> set b \<Longrightarrow> drop_last_segment (a @ CHR ''/'' # b) = a"
  by (simp add: drop_last_segment_def join_butlast_split_sep)

lemma rsplit1_sep: "c \<notin> set b \<Longrightarrow> rsplit1 c (a @ c # b) = [a, b]"
proof -
  assume nb: "c \<notin> set b"
  have d: "dropWhile (\<lambda>x. x \<noteq> c) (rev b @ c # rev a) = c # rev a"
    using nb by (subst dropWhile_append2) auto
  have t: "takeWhile (\<lambda>x. x \<noteq> c) (rev b @ c # rev a) = rev b"
    using nb by (subst takeWhile_append2) auto
  show ?thesis by (simp add: rsplit1_def d t)
qed

lemma rsplit1_no_sep: "c \<notin> set s \<Longrightarrow> rsplit1 c s = [s]"
  by (simp add: rsplit1_def)

lemma rsplit1_hd_drop_last_segment:
  assumes "CHR ''/'' \<in> set s"
  shows "hd (rsplit1 (CHR ''/'') s) = drop_last_segment s"
proof -
  from assms obtain a b where s: "s = a @ CHR ''/'' # b" and nb: "CHR ''/'' \<notin> set b"
    using split_list_last by fastforce
  show ?thesis using nb by (simp add: s rsplit1_sep drop_last_segment_sep)
qed

lemma joint_names_loop_dedup:
  "joint_names_loop acc xs =
     acc @ dedup_first (filter (\<lambda>y. y \<notin> set acc) (map interface_joint xs))"
proof (induction xs arbitrary: acc)
  case Nil
  show ?case by simp
next
  case (Cons x xs)
  have eq: "\<And>n. (\<lambda>y. y \<noteq> n \<and> y \<notin> set acc) = (\<lambda>y. y \<notin> set acc \<and> y \<noteq> n)" by auto
  show ?case by (simp add: Cons Let_def eq)
qed

lemma set_dedup_first: "set (dedup_first xs) = set xs"
  by (induction xs rule: dedup_first.induct) auto

lemma distinct_dedup_first: "distinct (dedup_first xs)"
  by (induction xs rule: dedup_first.induct) (auto simp: set_dedup_first)


subsection \<open>Namespace resolution\<close>

text \<open>
  Claim C7, as amended. With an empty controller name the assertion fails. Otherwise, for
  a controller-manager namespace that contains a slash, the result is the namespace
  without its last slash-separated segment (everything from the last slash on is
  dropped), followed by a slash unless that parent is exactly \<open>/\<close>, followed by the
  controller name; a namespace without any slash is kept whole and followed by a slash
  and the controller name, which for the empty namespace is the root. In particular
  \<open>/path/to/controller_manager\<close> and \<open>foo\<close> give \<open>/path/to/foo\<close>, and both \<open>/\<close> and the
  empty namespace give \<open>/foo\<close>.
\<close>

theorem resolve_controller_ns_parent:
  "resolve_controller_ns ns cname =
     (if cname = [] then Inl AssertionError
      else if CHR ''/'' \<in> set ns
        then Inr (drop_last_segment ns
                    @ (if drop_last_segment ns = ''/'' then [] else ''/'')
                    @ cname)
        else Inr (ns @ ''/'' @ cname))
   \<and> (\<forall>parent seg. CHR ''/'' \<notin> set seg \<longrightarrow> drop_last_segment (parent @ ''/'' @ seg) = parent)
   \<and> resolve_controller_ns ''/path/to/controller_manager'' ''foo'' = Inr ''/path/to/foo''
   \<and> resolve_controller_ns ''/'' ''foo'' = Inr ''/foo''
   \<and> resolve_controller_ns [] ''foo'' = Inr ''/foo''"
proof -
  have gen: "resolve_controller_ns ns cname =
     (if cname = [] then Inl AssertionError
      else if CHR ''/'' \<in> set ns
        then Inr (drop_last_segment ns
                    @ (if drop_last_segment ns = ''/'' then [] else ''/'')
                    @ cname)
        else Inr (ns @ ''/'' @ cname))"
  proof (cases "CHR ''/'' \<in> set ns")
    case True
    then show ?thesis
      by (simp add: resolve_controller_ns_def rsplit1_hd_drop_last_segment Let_def)
  next
    case False
    then have "ns \<noteq> ''/''" by auto
    with False show ?thesis
      by (simp add: resolve_controller_ns_def rsplit1_no_sep Let_def)
  qed
  have seg: "\<forall>parent seg. CHR ''/'' \<notin> set seg \<longrightarrow> drop_last_segment (parent @ ''/'' @ seg) = parent"
    by (simp add: drop_last_segment_sep)
  have e1: "resolve_controller_ns ''/path/to/controller_manager'' ''foo'' = Inr ''/path/to/foo''"
    by (simp add: resolve_controller_ns_def rsplit1_def)
  have e2: "resolve_controller_ns ''/'' ''foo'' = Inr ''/foo''"
    by (simp add: resolve_controller_ns_def rsplit1_def)
  have e3: "resolve_controller_ns [] ''foo'' = Inr ''/foo''"
    by (simp add: resolve_controller_ns_def rsplit1_def)
  show ?thesis by (intro conjI) (rule gen seg e1 e2 e3)+
qed

theorem resolve_controller_ns_parent_witness:
  "CHR ''/'' \<in> set ''/a/b/controller_manager''
   \<and> resolve_controller_ns ''/a/b/controller_manager'' ''c'' = Inr ''/a/b/c''
   \<and> CHR ''/'' \<notin> set ''controller_manager''
   \<and> drop_last_segment (''/a/b'' @ ''/'' @ ''controller_manager'') = ''/a/b''"
proof -
  note t = resolve_controller_ns_parent [of "''/a/b/controller_manager''" "''c''"]
  have h1: "CHR ''/'' \<in> set ''/a/b/controller_manager''" by simp
  have h2: "CHR ''/'' \<notin> set ''controller_manager''" by simp
  have d: "drop_last_segment (''/a/b'' @ ''/'' @ ''controller_manager'') = ''/a/b''"
    using t [THEN conjunct2, THEN conjunct1, THEN spec, THEN spec, THEN mp, OF h2] .
  then have d': "drop_last_segment ''/a/b/controller_manager'' = ''/a/b''" by simp
  have r: "resolve_controller_ns ''/a/b/controller_manager'' ''c'' = Inr ''/a/b/c''"
    using t [THEN conjunct1] h1 by (simp add: d')
  show ?thesis by (intro conjI) (rule h1 r h2 d)+
qed

text \<open>
  Claim C7 as stated, for all inputs, fails at a namespace without a slash: the only
  segment of \<open>cm\<close> is its last one, and it is kept, not dropped.
\<close>

theorem resolve_controller_ns_no_slash_counterexample:
  "resolve_controller_ns ''cm'' ''foo'' \<noteq>
     Inr (drop_last_segment ''cm''
            @ (if drop_last_segment ''cm'' = ''/'' then [] else ''/'') @ ''foo'')"
  by (simp add: resolve_controller_ns_def rsplit1_def drop_last_segment_def)

subsection \<open>Joint names of a controller\<close>

text \<open>
  Claim C8. The joint names of a controller are its interface identifiers, each mapped
  to all but its last slash-separated segment joined by slash (the part before the last
  slash, or the empty string when there is no slash), without duplicates and in the
  order of first appearance; \<open>j1/position\<close>, \<open>j1/velocity\<close>, \<open>j2/position\<close> give \<open>j1\<close>, \<open>j2\<close>.
\<close>

theorem jtc_joint_names_first_appearance:
  "jtc_joint_names jtc_info =
     dedup_first (map interface_joint (required_state_interfaces jtc_info))
   \<and> distinct (jtc_joint_names jtc_info)
   \<and> set (jtc_joint_names jtc_info) = interface_joint ` set (required_state_interfaces jtc_info)
   \<and> (\<forall>a b. CHR ''/'' \<notin> set b \<longrightarrow> interface_joint (a @ ''/'' @ b) = a)
   \<and> (\<forall>i. CHR ''/'' \<notin> set i \<longrightarrow> interface_joint i = [])
   \<and> jtc_joint_names_of [''j1/position'', ''j1/velocity'', ''j2/position''] = [''j1'', ''j2'']"
proof -
  have eq: "jtc_joint_names jtc_info =
     dedup_first (map interface_joint (required_state_interfaces jtc_info))"
    by (simp add: jtc_joint_names_def jtc_joint_names_of_def joint_names_loop_dedup)
  have d: "distinct (jtc_joint_names jtc_info)"
    by (simp add: eq distinct_dedup_first)
  have st: "set (jtc_joint_names jtc_info) = interface_joint ` set (required_state_interfaces jtc_info)"
    by (simp add: eq set_dedup_first)
  have a: "\<forall>a b. CHR ''/'' \<notin> set b \<longrightarrow> interface_joint (a @ ''/'' @ b) = a"
    by (simp add: interface_joint_def join_butlast_split_sep)
  have b: "\<forall>i. CHR ''/'' \<notin> set i \<longrightarrow> interface_joint i = []"
    by (simp add: interface_joint_def join_butlast_split_no_sep)
  have ex: "jtc_joint_names_of [''j1/position'', ''j1/velocity'', ''j2/position''] = [''j1'', ''j2'']"
    by (simp add: jtc_joint_names_of_def interface_joint_def)
  show ?thesis by (intro conjI) (rule eq d st a b ex)+
qed

theorem jtc_joint_names_first_appearance_witness:
  "CHR ''/'' \<notin> set ''position''
   \<and> interface_joint (''arm/j1'' @ ''/'' @ ''position'') = ''arm/j1''
   \<and> CHR ''/'' \<notin> set ''j1''
   \<and> interface_joint ''j1'' = []"
proof -
  note t = jtc_joint_names_first_appearance [of jtc_c]
  have h1: "CHR ''/'' \<notin> set ''position''" by simp
  have h2: "CHR ''/'' \<notin> set ''j1''" by simp
  note a = t [THEN conjunct2, THEN conjunct2, THEN conjunct2, THEN conjunct1,
               THEN spec, THEN spec, THEN mp, OF h1]
  note b = t [THEN conjunct2, THEN conjunct2, THEN conjunct2, THEN conjunct2, THEN conjunct1,
               THEN spec, THEN mp, OF h2]
  show ?thesis by (intro conjI) (rule h1 a h2 b)+
qed

subsection \<open>Command synthesis\<close>



lemma update_cmd_loop_no_position:
  "j \<in> set names \<Longrightarrow> joint_position s j = None \<Longrightarrow> \<exists>e. update_cmd_loop s names dur pts = Inl e"
proof (induction names arbitrary: dur pts)
  case Nil
  then show ?case by simp
next
  case (Cons k names)
  show ?case
  proof (cases "k = j")
    case True
    with Cons.prems show ?thesis
      by (auto simp: joint_position_def split: option.splits)
  next
    case False
    with Cons.prems have "j \<in> set names" by simp
    from Cons.IH [OF this Cons.prems(2)] show ?thesis
      by (auto simp: Let_def split: option.splits)
  qed
qed




text \<open>
  Claim C9. If any joint of the session's joint order has no position in the
  runtime-state table, the synthesis cycle raises before \<^verbatim>\<open>publish\<close> is reached: no
  trajectory message is emitted in that cycle.
\<close>

theorem update_cmd_cb_skips_without_position:
  "\<exists>j\<in>set (joint_names s). joint_position s j = None \<Longrightarrow> \<exists>e. update_cmd_cb s = Inl e"
proof -
  assume "\<exists>j\<in>set (joint_names s). joint_position s j = None"
  then obtain j where "j \<in> set (joint_names s)" "joint_position s j = None" by blast
  from update_cmd_loop_no_position [OF this]
  obtain e where "update_cmd_loop s (joint_names s) [] [] = Inl e" by blast
  then show ?thesis by (simp add: update_cmd_cb_def)
qed

theorem update_cmd_cb_skips_without_position_witness:
  "joint_position
     (session_of [''j1'', ''j2'']
        [(''j1'', \<lparr>position = Some 0, command = None\<rparr>),
         (''j2'', \<lparr>position = None, command = Some 1\<rparr>)]
        [(''j1'', \<lparr>min_position = - 3, max_position = 3, max_velocity = 2\<rparr>),
         (''j2'', \<lparr>min_position = - 3, max_position = 3, max_velocity = 1\<rparr>)] 1)
     ''j2'' = None
   \<and> (\<exists>e. update_cmd_cb
        (session_of [''j1'', ''j2'']
           [(''j1'', \<lparr>position = Some 0, command = None\<rparr>),
            (''j2'', \<lparr>position = None, command = Some 1\<rparr>)]
           [(''j1'', \<lparr>min_position = - 3, max_position = 3, max_velocity = 2\<rparr>),
            (''j2'', \<lparr>min_position = - 3, max_position = 3, max_velocity = 1\<rparr>)] 1) = Inl e)"
proof -
  let ?s = "session_of [''j1'', ''j2'']
        [(''j1'', \<lparr>position = Some 0, command = None\<rparr>),
         (''j2'', \<lparr>position = None, command = Some 1\<rparr>)]
        [(''j1'', \<lparr>min_position = - 3, max_position = 3, max_velocity = 2\<rparr>),
         (''j2'', \<lparr>min_position = - 3, max_position = 3, max_velocity = 1\<rparr>)] 1"
  have p: "joint_position ?s ''j2'' = None"
    by (simp add: joint_position_def session_of_def)
  have m: "''j2'' \<in> set (joint_names ?s)" by (simp add: session_of_def)
  from m p have h: "\<exists>j\<in>set (joint_names ?s). joint_position ?s j = None" by blast
  from p update_cmd_cb_skips_without_position [OF h] show ?thesis by (rule conjI)
qed

subsection \<open>Feedback ingestion\<close>

lemma joint_state_loop_known:
  "fst ` set cp \<subseteq> fst ` set d \<Longrightarrow>
   \<exists>d'. joint_state_loop d cp = (None, d')
      \<and> map fst d' = map fst d
      \<and> (\<forall>j. map_option command (map_of d' j) = map_option command (map_of d j))
      \<and> (\<forall>j. j \<notin> fst ` set cp \<longrightarrow> map_of d' j = map_of d j)
      \<and> (\<forall>j p. map_of (rev cp) j = Some p \<longrightarrow> map_option position (map_of d' j) = Some (Some p))"
proof (induction cp arbitrary: d)
  case Nil
  show ?case by simp
next
  case (Cons kv cp)
  obtain k v where kv: "kv = (k, v)" by (cases kv)
  from Cons.prems kv have kin: "k \<in> fst ` set d" and rest: "fst ` set cp \<subseteq> fst ` set d"
    by auto
  from kin obtain entry where e: "map_of d k = Some entry"
    by (metis domD dom_map_of_conv_image_fst)
  let ?d1 = "AList.update k (entry\<lparr>position := Some v\<rparr>) d"
  have keys1: "map fst ?d1 = map fst d"
    using kin by (simp add: update_keys)
  then have "fst ` set ?d1 = fst ` set d"
    by (metis list.set_map)
  with rest have rest1: "fst ` set cp \<subseteq> fst ` set ?d1" by simp
  from Cons.IH [OF rest1] obtain d' where
    run: "joint_state_loop ?d1 cp = (None, d')" and
    keys: "map fst d' = map fst ?d1" and
    cmd: "\<forall>j. map_option command (map_of d' j) = map_option command (map_of ?d1 j)" and
    frame: "\<forall>j. j \<notin> fst ` set cp \<longrightarrow> map_of d' j = map_of ?d1 j" and
    pos: "\<forall>j p. map_of (rev cp) j = Some p \<longrightarrow> map_option position (map_of d' j) = Some (Some p)"
    by blast
  have m1: "map_of ?d1 = (map_of d)(k \<mapsto> entry\<lparr>position := Some v\<rparr>)"
    by (rule update_conv')
  have 1: "joint_state_loop d (kv # cp) = (None, d')"
    by (simp add: kv e run)
  have 2: "map fst d' = map fst d" by (simp add: keys keys1)
  have 3: "\<forall>j. map_option command (map_of d' j) = map_option command (map_of d j)"
    using cmd e by (auto simp: m1)
  have 4: "\<forall>j. j \<notin> fst ` set (kv # cp) \<longrightarrow> map_of d' j = map_of d j"
    using frame by (auto simp: m1 kv)
  have 5: "\<forall>j p. map_of (rev (kv # cp)) j = Some p \<longrightarrow>
              map_option position (map_of d' j) = Some (Some p)"
  proof (intro allI impI)
    fix j p assume a: "map_of (rev (kv # cp)) j = Some p"
    show "map_option position (map_of d' j) = Some (Some p)"
    proof (cases "map_of (rev cp) j")
      case (Some q)
      with a have "q = p" by (simp add: kv map_add_def)
      with Some pos show ?thesis by blast
    next
      case None
      with a have jk: "j = k" and pv: "p = v"
        by (auto simp: kv map_add_def split: if_splits)
      from None have "j \<notin> fst ` set cp"
        by (metis domIff dom_map_of_conv_image_fst set_rev)
      with frame have "map_of d' j = map_of ?d1 j" by blast
      then show ?thesis by (simp add: m1 jk pv)
    qed
  qed
  from 1 2 3 4 5 show ?case by blast
qed

lemma state_cb_loop_short:
  "length ps < length ns \<Longrightarrow> state_cb_loop cp ns ps = Inl IndexError"
  by (induction cp ns ps rule: state_cb_loop.induct) auto

lemma state_cb_loop_take:
  "length ns \<le> length ps \<Longrightarrow> state_cb_loop cp ns ps = state_cb_loop cp ns (take (length ns) ps)"
  by (induction cp ns ps rule: state_cb_loop.induct) auto

lemma state_cb_loop_enough:
  "length ns \<le> length ps \<Longrightarrow> \<exists>cp'. state_cb_loop cp ns ps = Inr cp'"
  by (induction cp ns ps rule: state_cb_loop.induct) auto

text \<open>
  Claim C10. An accepted feedback update (as many keys as the runtime-state table has
  entries, every key a known joint) returns normally and changes nothing but the member
  \<^verbatim>\<open>_joint_pos\<close>: the ordered joint-name list and the joint-limits mapping are unchanged,
  the table keeps its keys, every joint's command is as before, the position of a joint
  that is not reported is as before, and a reported joint has its reported position.
\<close>

theorem on_joint_state_change_frame:
  assumes "length current_pos = length (joint_pos s)"
    and "fst ` set current_pos \<subseteq> fst ` set (joint_pos s)"
  shows "\<exists>s'. on_joint_state_change s current_pos = Returned s'
      \<and> s' = s\<lparr>joint_pos := joint_pos s'\<rparr>
      \<and> joint_names s' = joint_names s
      \<and> robot_joint_limits s' = robot_joint_limits s
      \<and> map fst (joint_pos s') = map fst (joint_pos s)
      \<and> (\<forall>j. joint_command s' j = joint_command s j)
      \<and> (\<forall>j. j \<notin> fst ` set current_pos \<longrightarrow> joint_position s' j = joint_position s j)
      \<and> (\<forall>j p. distinct (map fst current_pos) \<longrightarrow> (j, p) \<in> set current_pos \<longrightarrow>
            joint_position s' j = Some p)"
proof -
  from joint_state_loop_known [OF assms(2)] obtain d' where
    run: "joint_state_loop (joint_pos s) current_pos = (None, d')" and
    keys: "map fst d' = map fst (joint_pos s)" and
    cmd: "\<forall>j. map_option command (map_of d' j) = map_option command (map_of (joint_pos s) j)" and
    frame: "\<forall>j. j \<notin> fst ` set current_pos \<longrightarrow> map_of d' j = map_of (joint_pos s) j" and
    pos: "\<forall>j p. map_of (rev current_pos) j = Some p \<longrightarrow>
            map_option position (map_of d' j) = Some (Some p)"
    by blast
  let ?s' = "s\<lparr>joint_pos := d'\<rparr>"
  have r: "on_joint_state_change s current_pos = Returned ?s'"
    using assms(1) by (simp add: on_joint_state_change_def run)
  have c: "\<forall>j. joint_command ?s' j = joint_command s j"
  proof
    fix j
    from cmd have "map_option command (map_of d' j) = map_option command (map_of (joint_pos s) j)"
      by blast
    then show "joint_command ?s' j = joint_command s j"
      by (auto simp: joint_command_def split: option.splits)
  qed
  have f: "\<forall>j. j \<notin> fst ` set current_pos \<longrightarrow> joint_position ?s' j = joint_position s j"
    using frame by (simp add: joint_position_def)
  have p: "\<forall>j p. distinct (map fst current_pos) \<longrightarrow> (j, p) \<in> set current_pos \<longrightarrow>
            joint_position ?s' j = Some p"
  proof (intro allI impI)
    fix j p assume d: "distinct (map fst current_pos)" and m: "(j, p) \<in> set current_pos"
    from d have "distinct (map fst (rev current_pos))" by (simp add: rev_map [symmetric])
    with m have "map_of (rev current_pos) j = Some p" by simp
    with pos have "map_option position (map_of d' j) = Some (Some p)" by blast
    then show "joint_position ?s' j = Some p"
      by (auto simp: joint_position_def split: option.splits)
  qed
  show ?thesis
    apply (rule exI [of _ ?s'])
    apply (intro conjI)
           apply (rule r)
          apply simp
         apply simp
        apply simp
       apply (simp add: keys)
      apply (rule c)
     apply (rule f)
    apply (rule p)
    done
qed

theorem on_joint_state_change_frame_witness:
  "length [(''j2'', 5::real), (''j1'', 7)]
     = length (joint_pos (session_of [''j1'', ''j2'']
           [(''j1'', \<lparr>position = None, command = Some 1\<rparr>),
            (''j2'', \<lparr>position = Some 0, command = None\<rparr>)] [] 1))
   \<and> fst ` set [(''j2'', 5::real), (''j1'', 7)]
     \<subseteq> fst ` set (joint_pos (session_of [''j1'', ''j2'']
           [(''j1'', \<lparr>position = None, command = Some 1\<rparr>),
            (''j2'', \<lparr>position = Some 0, command = None\<rparr>)] [] 1))
   \<and> distinct (map fst [(''j2'', 5::real), (''j1'', 7)])
   \<and> (''j1'', 7) \<in> set [(''j2'', 5::real), (''j1'', 7)]
   \<and> ''j3'' \<notin> fst ` set [(''j2'', 5::real), (''j1'', 7)]
   \<and> (\<exists>s'. on_joint_state_change
          (session_of [''j1'', ''j2'']
             [(''j1'', \<lparr>position = None, command = Some 1\<rparr>),
              (''j2'', \<lparr>position = Some 0, command = None\<rparr>)] [] 1)
          [(''j2'', 5), (''j1'', 7)] = Returned s'
        \<and> joint_names s' = [''j1'', ''j2'']
        \<and> joint_command s' ''j1'' = Some 1
        \<and> joint_command s' ''j2'' = None
        \<and> joint_position s' ''j1'' = Some 7
        \<and> joint_position s' ''j3'' = None)"
proof -
  let ?s = "session_of [''j1'', ''j2'']
             [(''j1'', \<lparr>position = None, command = Some 1\<rparr>),
              (''j2'', \<lparr>position = Some 0, command = None\<rparr>)] [] 1"
  let ?cp = "[(''j2'', 5::real), (''j1'', 7)]"
  have h1: "length ?cp = length (joint_pos ?s)" by (simp add: session_of_def)
  have h2: "fst ` set ?cp \<subseteq> fst ` set (joint_pos ?s)" by (simp add: session_of_def)
  have d: "distinct (map fst ?cp)" by simp
  have m: "(''j1'', 7) \<in> set ?cp" by simp
  have u: "''j3'' \<notin> fst ` set ?cp" by simp
  from on_joint_state_change_frame [OF h1 h2] obtain s' where
    r: "on_joint_state_change ?s ?cp = Returned s'" and
    n: "joint_names s' = joint_names ?s" and
    c: "\<forall>j. joint_command s' j = joint_command ?s j" and
    f: "\<forall>j. j \<notin> fst ` set ?cp \<longrightarrow> joint_position s' j = joint_position ?s j" and
    p: "\<forall>j p. distinct (map fst ?cp) \<longrightarrow> (j, p) \<in> set ?cp \<longrightarrow> joint_position s' j = Some p"
    by blast
  have n': "joint_names s' = [''j1'', ''j2'']" using n by (simp add: session_of_def)
  have c1: "joint_command s' ''j1'' = Some 1"
    using c by (simp add: joint_command_def session_of_def)
  have c2: "joint_command s' ''j2'' = None"
    using c by (simp add: joint_command_def session_of_def)
  from p d m have p1: "joint_position s' ''j1'' = Some 7" by blast
  from f u have "joint_position s' ''j3'' = joint_position ?s ''j3''" by blast
  then have p3: "joint_position s' ''j3'' = None"
    by (simp add: joint_position_def session_of_def)
  from r n' c1 c2 p1 p3 have "\<exists>s'. on_joint_state_change ?s ?cp = Returned s'
        \<and> joint_names s' = [''j1'', ''j2'']
        \<and> joint_command s' ''j1'' = Some 1
        \<and> joint_command s' ''j2'' = None
        \<and> joint_position s' ''j1'' = Some 7
        \<and> joint_position s' ''j3'' = None" by blast
  with h1 h2 d m u show ?thesis by (intro conjI)
qed

text \<open>
  Claim C6, as amended. A feedback report with fewer positions than joint names raises
  \<^verbatim>\<open>IndexError\<close> in \<^verbatim>\<open>_state_cb\<close> before the update is emitted, and every member of the
  plugin is as before. A report with more positions than joint names is handled exactly
  as the same report without the surplus positions.
\<close>

theorem state_cb_short_positions:
  "(length (feedback_positions msg) < length (msg_joint_names msg) \<longrightarrow>
      state_cb s msg = Raised IndexError s)
   \<and> (length (msg_joint_names msg) \<le> length (feedback_positions msg) \<longrightarrow>
      state_cb s msg =
        state_cb s (msg\<lparr>feedback_positions :=
                          take (length (msg_joint_names msg)) (feedback_positions msg)\<rparr>))"
proof (intro conjI impI)
  assume "length (feedback_positions msg) < length (msg_joint_names msg)"
  then show "state_cb s msg = Raised IndexError s"
    by (simp add: state_cb_def state_cb_loop_short)
next
  assume "length (msg_joint_names msg) \<le> length (feedback_positions msg)"
  then show "state_cb s msg =
        state_cb s (msg\<lparr>feedback_positions :=
                          take (length (msg_joint_names msg)) (feedback_positions msg)\<rparr>)"
    by (simp add: state_cb_def state_cb_loop_take [symmetric])
qed

theorem state_cb_short_positions_witness:
  "length (feedback_positions \<lparr>msg_joint_names = [''j1'', ''j2''], feedback_positions = [1]\<rparr>)
     < length (msg_joint_names \<lparr>msg_joint_names = [''j1'', ''j2''], feedback_positions = [1]\<rparr>)
   \<and> state_cb
        (session_of [''j1'', ''j2'']
           [(''j1'', \<lparr>position = None, command = None\<rparr>),
            (''j2'', \<lparr>position = None, command = None\<rparr>)] [] 1)
        \<lparr>msg_joint_names = [''j1'', ''j2''], feedback_positions = [1]\<rparr>
     = Raised IndexError
        (session_of [''j1'', ''j2'']
           [(''j1'', \<lparr>position = None, command = None\<rparr>),
            (''j2'', \<lparr>position = None, command = None\<rparr>)] [] 1)
   \<and> length (msg_joint_names \<lparr>msg_joint_names = [''j1''], feedback_positions = [3 / 2, 5 / 2]\<rparr>)
     \<le> length (feedback_positions \<lparr>msg_joint_names = [''j1''], feedback_positions = [3 / 2, 5 / 2]\<rparr>)
   \<and> state_cb (session_of [''j1''] [(''j1'', \<lparr>position = None, command = None\<rparr>)] [] 1)
        \<lparr>msg_joint_names = [''j1''], feedback_positions = [3 / 2, 5 / 2]\<rparr>
     = state_cb (session_of [''j1''] [(''j1'', \<lparr>position = None, command = None\<rparr>)] [] 1)
        \<lparr>msg_joint_names = [''j1''], feedback_positions = [3 / 2]\<rparr>"
  using state_cb_short_positions
          [of "\<lparr>msg_joint_names = [''j1'', ''j2''], feedback_positions = [1]\<rparr>"
              "session_of [''j1'', ''j2'']
                 [(''j1'', \<lparr>position = None, command = None\<rparr>),
                  (''j2'', \<lparr>position = None, command = None\<rparr>)] [] 1"]
        state_cb_short_positions
          [of "\<lparr>msg_joint_names = [''j1''], feedback_positions = [3 / 2, 5 / 2]\<rparr>"
              "session_of [''j1''] [(''j1'', \<lparr>position = None, command = None\<rparr>)] [] 1"]
  by simp

text \<open>
  Claim C6 as stated, for every report whose arrays differ in length, fails for a report
  with one joint name and two positions: the first position is written to the table.
\<close>

theorem state_cb_long_positions_counterexample:
  "length (msg_joint_names \<lparr>msg_joint_names = [''j1''], feedback_positions = [3 / 2, 5 / 2]\<rparr>)
     \<noteq> length (feedback_positions \<lparr>msg_joint_names = [''j1''], feedback_positions = [3 / 2, 5 / 2]\<rparr>)
   \<and> state_cb (session_of [''j1''] [(''j1'', \<lparr>position = None, command = None\<rparr>)] [] 1)
        \<lparr>msg_joint_names = [''j1''], feedback_positions = [3 / 2, 5 / 2]\<rparr>
     = Returned (session_of [''j1''] [(''j1'', \<lparr>position = Some (3 / 2), command = None\<rparr>)] [] 1)
   \<and> session_of [''j1''] [(''j1'', \<lparr>position = Some (3 / 2), command = None\<rparr>)] [] 1
     \<noteq> session_of [''j1''] [(''j1'', \<lparr>position = None, command = None\<rparr>)] [] 1"
  by (simp add: state_cb_def on_joint_state_change_def session_of_def init_state_def)

subsection \<open>What each handler leaves unchanged\<close>



lemma update_jtc_list_populated:
  "robot_joint_limits s \<noteq> [] \<Longrightarrow>
   state_of (update_jtc_list s cl g) =
     s\<lparr>jtc_combo := jtc_combo (state_of (update_jtc_list s cl g))\<rparr>"
  by (auto simp: update_jtc_list_def running_jtc_info_def Let_def)


lemma on_cm_change_populated:
  assumes "robot_joint_limits s \<noteq> []"
  shows "state_of (on_cm_change s ns cl g) =
     s\<lparr>cm_ns := cm_ns (state_of (on_cm_change s ns cl g)),
       list_controllers := list_controllers (state_of (on_cm_change s ns cl g)),
       jtc_combo := jtc_combo (state_of (on_cm_change s ns cl g))\<rparr>"
proof (cases "ns = []")
  case True
  then show ?thesis by (simp add: on_cm_change_def Let_def)
next
  case False
  let ?s1 = "s\<lparr>cm_ns := ns, list_controllers := True, jtc_combo := []\<rparr>"
  let ?u = "state_of (update_jtc_list ?s1 cl g)"
  have o: "state_of (on_cm_change s ns cl g) = ?u"
    using False by (simp add: on_cm_change_def Let_def)
  from assms have "robot_joint_limits ?s1 \<noteq> []" by simp
  then have "?u = ?s1\<lparr>jtc_combo := jtc_combo ?u\<rparr>"
    by (rule update_jtc_list_populated)
  then have "?u = s\<lparr>cm_ns := cm_ns ?u, list_controllers := list_controllers ?u,
       jtc_combo := jtc_combo ?u\<rparr>"
    by (rule ssubst) simp
  then show ?thesis unfolding o .
qed

lemma state_cb_frame:
  "state_of (state_cb s msg) = s\<lparr>joint_pos := joint_pos (state_of (state_cb s msg))\<rparr>"
  by (auto simp: state_cb_def on_joint_state_change_def
           split: sum.splits prod.splits option.splits)

lemma update_single_cmd_cb_frame:
  "state_of (update_single_cmd_cb s val j) =
     s\<lparr>joint_pos := joint_pos (state_of (update_single_cmd_cb s val j))\<rparr>"
  by (auto simp: update_single_cmd_cb_def split: option.splits)

lemma on_jtc_change_limits:
  "robot_joint_limits (state_of (on_jtc_change s n cl)) = robot_joint_limits s
   \<and> limit_lookups (state_of (on_jtc_change s n cl)) = limit_lookups s"
  by (simp add: on_jtc_change_def unload_jtc_def set_checked_def on_jtc_enabled_def
                load_jtc_def running_jtc_info_def Let_def
           split: sum.splits option.splits)

lemma set_checked_limits:
  "robot_joint_limits (set_checked s val) = robot_joint_limits s
   \<and> limit_lookups (set_checked s val) = limit_lookups s"
  by (simp add: set_checked_def on_jtc_enabled_def)

lemma handle_populated:
  assumes "robot_joint_limits s \<noteq> []"
  shows "robot_joint_limits (state_of (handle s ev)) = robot_joint_limits s
       \<and> limit_lookups (state_of (handle s ev)) = limit_lookups s"
proof (cases ev)
  case (CmChange ns cl g)
  from on_cm_change_populated [OF assms, of ns cl g]
  have "state_of (on_cm_change s ns cl g) =
     s\<lparr>cm_ns := cm_ns (state_of (on_cm_change s ns cl g)),
       list_controllers := list_controllers (state_of (on_cm_change s ns cl g)),
       jtc_combo := jtc_combo (state_of (on_cm_change s ns cl g))\<rparr>" .
  then have "robot_joint_limits (state_of (on_cm_change s ns cl g)) = robot_joint_limits s
       \<and> limit_lookups (state_of (on_cm_change s ns cl g)) = limit_lookups s"
    by (rule ssubst) simp
  with CmChange show ?thesis by simp
next
  case (JtcChange n cl)
  with on_jtc_change_limits [of s n cl] show ?thesis by simp
next
  case (EnableToggled val)
  with set_checked_limits [of s val] show ?thesis by simp
next
  case (JtcListTimeout cl g)
  from update_jtc_list_populated [OF assms, of cl g]
  have "state_of (update_jtc_list s cl g) =
     s\<lparr>jtc_combo := jtc_combo (state_of (update_jtc_list s cl g))\<rparr>" .
  then have "robot_joint_limits (state_of (update_jtc_list s cl g)) = robot_joint_limits s
       \<and> limit_lookups (state_of (update_jtc_list s cl g)) = limit_lookups s"
    by (rule ssubst) simp
  with JtcListTimeout show ?thesis by simp
next
  case (StateMsg msg)
  have "state_of (state_cb s msg) = s\<lparr>joint_pos := joint_pos (state_of (state_cb s msg))\<rparr>"
    by (rule state_cb_frame)
  then have "robot_joint_limits (state_of (state_cb s msg)) = robot_joint_limits s
       \<and> limit_lookups (state_of (state_cb s msg)) = limit_lookups s"
    by (rule ssubst) simp
  with StateMsg show ?thesis by simp
next
  case (SingleCmd val j)
  have "state_of (update_single_cmd_cb s val j) =
     s\<lparr>joint_pos := joint_pos (state_of (update_single_cmd_cb s val j))\<rparr>"
    by (rule update_single_cmd_cb_frame)
  then have "robot_joint_limits (state_of (update_single_cmd_cb s val j)) = robot_joint_limits s
       \<and> limit_lookups (state_of (update_single_cmd_cb s val j)) = limit_lookups s"
    by (rule ssubst) simp
  with SingleCmd show ?thesis by simp
next
  case (SpeedScalingChange val m)
  then show ?thesis by (simp add: on_speed_scaling_change_def)
next
  case Shutdown
  then show ?thesis by (simp add: shutdown_plugin_def)
qed

lemma run_Cons: "run s (ev # events) = run (state_of (handle s ev)) events"
  by (simp add: run_def)

lemma run_Nil: "run s [] = s"
  by (simp add: run_def)

subsection \<open>The joint-limit cache\<close>

text \<open>
  Claim C4. Once the joint-limits mapping is nonempty, no sequence of later events
  (discovery cycles, selections of a controller manager or of a controller, mode
  switches, feedback, command edits, speed scaling, shutdown) changes the mapping or calls the external lookup
  again: the mapping and the trace of lookups are as they were.
\<close>

theorem limits_populated_once:
  "robot_joint_limits s \<noteq> [] \<Longrightarrow>
   robot_joint_limits (run s events) = robot_joint_limits s
   \<and> limit_lookups (run s events) = limit_lookups s"
proof (induction events arbitrary: s)
  case Nil
  show ?case by (simp add: run_Nil)
next
  case (Cons ev events)
  from handle_populated [OF Cons.prems, of ev]
  have l: "robot_joint_limits (state_of (handle s ev)) = robot_joint_limits s"
    and k: "limit_lookups (state_of (handle s ev)) = limit_lookups s" by simp_all
  from Cons.prems l have "robot_joint_limits (state_of (handle s ev)) \<noteq> []" by simp
  from Cons.IH [OF this] l k show ?case by (simp add: run_Cons)
qed

theorem limits_populated_once_witness:
  "robot_joint_limits
     (run (init_state 1) [CmChange ''/controller_manager'' [jtc_c] limits_for_j1]) \<noteq> []
   \<and> robot_joint_limits
       (run (run (init_state 1) [CmChange ''/controller_manager'' [jtc_c] limits_for_j1])
          [JtcListTimeout [jtc_d, jtc_c] limits_for_all, JtcChange ''d'' [jtc_d, jtc_c],
           JtcListTimeout [jtc_d] limits_for_all])
     = robot_joint_limits
         (run (init_state 1) [CmChange ''/controller_manager'' [jtc_c] limits_for_j1])
   \<and> limit_lookups
       (run (run (init_state 1) [CmChange ''/controller_manager'' [jtc_c] limits_for_j1])
          [JtcListTimeout [jtc_d, jtc_c] limits_for_all, JtcChange ''d'' [jtc_d, jtc_c],
           JtcListTimeout [jtc_d] limits_for_all])
     = limit_lookups
         (run (init_state 1) [CmChange ''/controller_manager'' [jtc_c] limits_for_j1])"
proof -
  have h: "robot_joint_limits
     (run (init_state 1) [CmChange ''/controller_manager'' [jtc_c] limits_for_j1]) \<noteq> []"
    by code_simp
  from h limits_populated_once [OF h] show ?thesis by (rule conjI)
qed

subsection \<open>The two timers\<close>










subsection \<open>Selecting a controller that is not running\<close>

lemma unload_jtc_fields:
  "joint_pos (unload_jtc s) = [] \<and> joint_names (unload_jtc s) = []
   \<and> cmd_pub (unload_jtc s) = None \<and> state_sub (unload_jtc s) = None
   \<and> \<not> executor (unload_jtc s) \<and> \<not> state_signal_connected (unload_jtc s)
   \<and> \<not> enable_button (unload_jtc s)
   \<and> list_controllers (unload_jtc s) = list_controllers s"
  by (simp add: unload_jtc_def set_checked_def on_jtc_enabled_def)

text \<open>
  Claim C5, as amended. A selection of a nonempty controller name that no active
  trajectory controller of the current listing bears first unloads the prior session
  and records the name, and then fails in \<^verbatim>\<open>_load_jtc\<close> (with \<^verbatim>\<open>StopIteration\<close> from \<^verbatim>\<open>next\<close>, or
  with \<^verbatim>\<open>TypeError\<close> when there is no controller lister): afterwards no session is bound,
  and no runtime state, joint list, subscription, publisher, executor or signal
  connection of a new session exists.
\<close>

theorem on_jtc_change_absent:
  assumes "new_name \<noteq> []"
    and "new_name \<notin> name ` set (filter_by_state
            (filter_by_type controller_list ''JointTrajectoryController'' True) ''active'')"
  shows "on_jtc_change s new_name controller_list =
           Raised (if list_controllers s then StopIteration else TypeError)
             ((unload_jtc s)\<lparr>jtc_name := new_name\<rparr>)
     \<and> \<not> bound ((unload_jtc s)\<lparr>jtc_name := new_name\<rparr>)
     \<and> joint_pos ((unload_jtc s)\<lparr>jtc_name := new_name\<rparr>) = []
     \<and> joint_names ((unload_jtc s)\<lparr>jtc_name := new_name\<rparr>) = []
     \<and> cmd_pub ((unload_jtc s)\<lparr>jtc_name := new_name\<rparr>) = None
     \<and> state_sub ((unload_jtc s)\<lparr>jtc_name := new_name\<rparr>) = None
     \<and> \<not> executor ((unload_jtc s)\<lparr>jtc_name := new_name\<rparr>)
     \<and> \<not> state_signal_connected ((unload_jtc s)\<lparr>jtc_name := new_name\<rparr>)"
proof -
  let ?r = "filter_by_state (filter_by_type controller_list ''JointTrajectoryController'' True)
              ''active''"
  let ?s2 = "(unload_jtc s)\<lparr>jtc_name := new_name\<rparr>"
  have lc: "list_controllers ?s2 = list_controllers s"
    using unload_jtc_fields [of s] by simp
  from assms(2) have f: "find (\<lambda>x. name x = new_name) ?r = None"
    by (auto simp: find_None_iff)
  have l: "load_jtc ?s2 controller_list =
             Raised (if list_controllers s then StopIteration else TypeError) ?s2"
    using f by (simp add: load_jtc_def running_jtc_info_def lc)
  have 1: "on_jtc_change s new_name controller_list =
             Raised (if list_controllers s then StopIteration else TypeError) ?s2"
    using assms(1) l by (simp add: on_jtc_change_def Let_def)
  have 2: "\<not> bound ?s2" "joint_pos ?s2 = []" "joint_names ?s2 = []" "cmd_pub ?s2 = None"
    "state_sub ?s2 = None" "\<not> executor ?s2" "\<not> state_signal_connected ?s2"
    using unload_jtc_fields [of s] by (simp_all add: bound_def)
  show ?thesis by (intro conjI) (rule 1 2)+
qed

theorem on_jtc_change_absent_witness:
  "''zz'' \<noteq> []
   \<and> ''zz'' \<notin> name ` set (filter_by_state
          (filter_by_type [jtc_c, jtc_d] ''JointTrajectoryController'' True) ''active'')
   \<and> on_jtc_change (init_state 1\<lparr>cm_ns := ''/controller_manager'', list_controllers := True\<rparr>)
        ''zz'' [jtc_c, jtc_d]
     = Raised StopIteration
         (init_state 1\<lparr>jtc_name := ''zz'', cm_ns := ''/controller_manager'',
            list_controllers := True\<rparr>)"
proof -
  let ?s = "init_state 1\<lparr>cm_ns := ''/controller_manager'', list_controllers := True\<rparr>"
  have h1: "''zz'' \<noteq> []" by simp
  have h2: "''zz'' \<notin> name ` set (filter_by_state
          (filter_by_type [jtc_c, jtc_d] ''JointTrajectoryController'' True) ''active'')"
    by (simp add: filter_by_state_def filter_by_type_def jtc_c_def jtc_d_def)
  have u: "(unload_jtc ?s)\<lparr>jtc_name := ''zz''\<rparr> =
        init_state 1\<lparr>jtc_name := ''zz'', cm_ns := ''/controller_manager'',
            list_controllers := True\<rparr>"
    by (simp add: unload_jtc_def set_checked_def init_state_def)
  have l: "list_controllers ?s" by simp
  from on_jtc_change_absent [OF h1 h2, of ?s, THEN conjunct1]
  have "on_jtc_change ?s ''zz'' [jtc_c, jtc_d] = Raised StopIteration
         (init_state 1\<lparr>jtc_name := ''zz'', cm_ns := ''/controller_manager'',
            list_controllers := True\<rparr>)"
    unfolding u using l by simp
  with h1 h2 show ?thesis by (intro conjI)
qed

text \<open>
  Claim C5 as stated leaves the prior session intact. With a session bound to \<open>c\<close>, the
  selection of the absent name \<open>zz\<close> raises, and the session of \<open>c\<close> is gone: its publisher,
  subscription, joint list and runtime state were removed by \<^verbatim>\<open>_unload_jtc\<close> before
  \<^verbatim>\<open>_load_jtc\<close> looked for \<open>zz\<close>.
\<close>

theorem on_jtc_change_absent_counterexample:
  "bound (session_of [''j1''] [(''j1'', \<lparr>position = Some 0, command = None\<rparr>)]
            [(''j1'', \<lparr>min_position = - 3, max_position = 3, max_velocity = 2\<rparr>)] 1)
   \<and> on_jtc_change
        (session_of [''j1''] [(''j1'', \<lparr>position = Some 0, command = None\<rparr>)]
            [(''j1'', \<lparr>min_position = - 3, max_position = 3, max_velocity = 2\<rparr>)] 1)
        ''zz'' [jtc_c]
     = Raised StopIteration
        ((init_state 1)
           \<lparr>jtc_name := ''zz'', cm_ns := ''/controller_manager'',
             robot_joint_limits :=
               [(''j1'', \<lparr>min_position = - 3, max_position = 3, max_velocity = 2\<rparr>)],
             list_controllers := True, update_act_pos_timer := True, jtc_combo := [''c'']\<rparr>)
   \<and> \<not> bound
        ((init_state 1)
           \<lparr>jtc_name := ''zz'', cm_ns := ''/controller_manager'',
             robot_joint_limits :=
               [(''j1'', \<lparr>min_position = - 3, max_position = 3, max_velocity = 2\<rparr>)],
             list_controllers := True, update_act_pos_timer := True, jtc_combo := [''c'']\<rparr>)"
  by (simp add: session_of_def init_state_def bound_def on_jtc_change_def unload_jtc_def
                set_checked_def load_jtc_def running_jtc_info_def filter_by_state_def
                filter_by_type_def jtc_c_def sublist_code)

subsection \<open>The discovery cycle\<close>

lemma has_limits_iff:
  "has_limits s c \<longleftrightarrow> (\<forall>j\<in>set (jtc_joint_names c). j \<in> fst ` set (robot_joint_limits s))"
  by (simp add: has_limits_def dict_has_def list_all_iff map_of_eq_None_iff)

lemma has_limits_jtc_combo: "has_limits (s\<lparr>jtc_combo := c\<rparr>) = has_limits s"
  by (rule ext) (simp add: has_limits_def)

lemma running_set:
  "set (filter_by_state (filter_by_type cl ''JointTrajectoryController'' True) ''active'') =
     {c \<in> set cl. sublist ''JointTrajectoryController'' (type c) \<and> state c = ''active''}"
  by (auto simp: filter_by_state_def filter_by_type_def)

text \<open>
  Claim C3, as amended. Without a controller lister a discovery cycle clears the list.
  With one, the cycle returns and the list it hands to the combo box is the sorted list
  of the names of those controllers of the listing whose type contains
  \<open>JointTrajectoryController\<close>, whose state is \<open>active\<close> and all of whose joints have an
  entry in the joint-limit cache as it is after the cycle's priming attempt; when the
  cache is still empty then, the list is empty.
\<close>

theorem update_jtc_list_combo:
  "(\<not> list_controllers s \<longrightarrow> update_jtc_list s cl g = Returned (s\<lparr>jtc_combo := []\<rparr>))
   \<and> (list_controllers s \<longrightarrow>
        (\<exists>s'. update_jtc_list s cl g = Returned s'
           \<and> jtc_combo s' =
               sort (map name
                 (filter (\<lambda>c. robot_joint_limits s' \<noteq> [] \<and> has_limits s' c)
                    (filter_by_state
                       (filter_by_type cl ''JointTrajectoryController'' True) ''active'')))
           \<and> sorted (jtc_combo s')
           \<and> (robot_joint_limits s' = [] \<longrightarrow> jtc_combo s' = [])
           \<and> set (jtc_combo s') =
               name ` {c \<in> set cl. sublist ''JointTrajectoryController'' (type c)
                         \<and> state c = ''active'' \<and> robot_joint_limits s' \<noteq> []
                         \<and> (\<forall>j\<in>set (jtc_joint_names c). j \<in> fst ` set (robot_joint_limits s'))}))"
proof (intro conjI impI)
  assume "\<not> list_controllers s"
  then show "update_jtc_list s cl g = Returned (s\<lparr>jtc_combo := []\<rparr>)"
    by (simp add: update_jtc_list_def)
next
  assume lc: "list_controllers s"
  let ?r = "filter_by_state (filter_by_type cl ''JointTrajectoryController'' True) ''active''"
  let ?s1 = "if ?r \<noteq> [] \<and> robot_joint_limits s = []
             then fetch_limits g ?r (s\<lparr>robot_joint_limits := []\<rparr>) else s"
  let ?valid = "if robot_joint_limits ?s1 \<noteq> [] then filter (has_limits ?s1) ?r else []"
  let ?s' = "?s1\<lparr>jtc_combo := sort (map name ?valid)\<rparr>"
  have r: "update_jtc_list s cl g = Returned ?s'"
    using lc by (simp add: update_jtc_list_def running_jtc_info_def Let_def)
  have lim: "robot_joint_limits ?s' = robot_joint_limits ?s1" by simp
  have v: "?valid = filter (\<lambda>c. robot_joint_limits ?s' \<noteq> [] \<and> has_limits ?s' c) ?r"
    unfolding lim has_limits_jtc_combo by simp
  have combo: "jtc_combo ?s' = sort (map name ?valid)" by simp
  have 1: "jtc_combo ?s' =
        sort (map name (filter (\<lambda>c. robot_joint_limits ?s' \<noteq> [] \<and> has_limits ?s' c) ?r))"
    using combo v by simp
  have 2: "sorted (jtc_combo ?s')" unfolding combo by simp
  have 3: "robot_joint_limits ?s' = [] \<longrightarrow> jtc_combo ?s' = []"
    unfolding lim combo by simp
  have 4: "set (jtc_combo ?s') =
               name ` {c \<in> set cl. sublist ''JointTrajectoryController'' (type c)
                         \<and> state c = ''active'' \<and> robot_joint_limits ?s' \<noteq> []
                         \<and> (\<forall>j\<in>set (jtc_joint_names c). j \<in> fst ` set (robot_joint_limits ?s'))}"
    unfolding 1 by (auto simp: running_set has_limits_iff)
  show "\<exists>s'. update_jtc_list s cl g = Returned s'
           \<and> jtc_combo s' =
               sort (map name
                 (filter (\<lambda>c. robot_joint_limits s' \<noteq> [] \<and> has_limits s' c) ?r))
           \<and> sorted (jtc_combo s')
           \<and> (robot_joint_limits s' = [] \<longrightarrow> jtc_combo s' = [])
           \<and> set (jtc_combo s') =
               name ` {c \<in> set cl. sublist ''JointTrajectoryController'' (type c)
                         \<and> state c = ''active'' \<and> robot_joint_limits s' \<noteq> []
                         \<and> (\<forall>j\<in>set (jtc_joint_names c). j \<in> fst ` set (robot_joint_limits s'))}"
    apply (rule exI [of _ ?s'])
    apply (intro conjI)
        apply (rule r)
       apply (rule 1)
      apply (rule 2)
     apply (rule 3)
    apply (rule 4)
    done
qed

theorem update_jtc_list_combo_witness:
  "\<not> list_controllers (init_state 1)
   \<and> update_jtc_list (init_state 1) [jtc_d, jtc_c] limits_for_all
       = Returned (init_state 1\<lparr>jtc_combo := []\<rparr>)
   \<and> list_controllers (init_state 1\<lparr>cm_ns := ''/controller_manager'', list_controllers := True\<rparr>)
   \<and> (\<exists>s'. update_jtc_list
               (init_state 1\<lparr>cm_ns := ''/controller_manager'', list_controllers := True\<rparr>)
               [jtc_d, jtc_c] limits_for_j1 = Returned s'
          \<and> jtc_combo s' = [''c''] \<and> sorted (jtc_combo s'))
   \<and> (\<exists>s'. update_jtc_list
               (init_state 1\<lparr>cm_ns := ''/controller_manager'', list_controllers := True\<rparr>)
               [jtc_d, jtc_c] limits_for_none = Returned s'
          \<and> robot_joint_limits s' = [] \<and> jtc_combo s' = [])"
proof -
  let ?s = "init_state 1\<lparr>cm_ns := ''/controller_manager'', list_controllers := True\<rparr>"
  have h0: "\<not> list_controllers (init_state 1)" by (simp add: init_state_def)
  have h1: "list_controllers ?s" by simp
  note a = update_jtc_list_combo [of "init_state 1" "[jtc_d, jtc_c]" limits_for_all,
             THEN conjunct1, THEN mp, OF h0]
  from update_jtc_list_combo [of ?s "[jtc_d, jtc_c]" limits_for_j1,
             THEN conjunct2, THEN mp, OF h1]
  obtain s' where r: "update_jtc_list ?s [jtc_d, jtc_c] limits_for_j1 = Returned s'"
    and srt: "sorted (jtc_combo s')" by blast
  have e: "jtc_combo (state_of (update_jtc_list ?s [jtc_d, jtc_c] limits_for_j1)) = [''c'']"
    by code_simp
  from e r have c: "jtc_combo s' = [''c'']" by simp
  from r c srt have b: "\<exists>s'. update_jtc_list ?s [jtc_d, jtc_c] limits_for_j1 = Returned s'
          \<and> jtc_combo s' = [''c''] \<and> sorted (jtc_combo s')" by blast
  from update_jtc_list_combo [of ?s "[jtc_d, jtc_c]" limits_for_none,
             THEN conjunct2, THEN mp, OF h1]
  obtain s'' where r2: "update_jtc_list ?s [jtc_d, jtc_c] limits_for_none = Returned s''"
    and imp: "robot_joint_limits s'' = [] \<longrightarrow> jtc_combo s'' = []" by blast
  have e2: "robot_joint_limits (state_of (update_jtc_list ?s [jtc_d, jtc_c] limits_for_none)) = []"
    by code_simp
  from e2 r2 have l2: "robot_joint_limits s'' = []" by simp
  with imp have c2: "jtc_combo s'' = []" by blast
  from r2 l2 c2 have d: "\<exists>s'. update_jtc_list ?s [jtc_d, jtc_c] limits_for_none = Returned s'
          \<and> robot_joint_limits s' = [] \<and> jtc_combo s' = []" by blast
  from h0 a h1 b d show ?thesis by (intro conjI)
qed

text \<open>
  Claim C3 as stated has the full active set listed while the joint-limit cache is
  empty. With the active trajectory controller \<open>c\<close> and a lookup that knows no joint,
  the cache is empty before and after the cycle and the list is empty, not \<open>[c]\<close>.
\<close>

theorem update_jtc_list_empty_cache_counterexample:
  "robot_joint_limits
     (init_state 1\<lparr>cm_ns := ''/controller_manager'', list_controllers := True\<rparr>) = []
   \<and> map name (filter_by_state
        (filter_by_type [jtc_c] ''JointTrajectoryController'' True) ''active'') = [''c'']
   \<and> update_jtc_list
       (init_state 1\<lparr>cm_ns := ''/controller_manager'', list_controllers := True\<rparr>)
       [jtc_c] limits_for_none
     = Returned (init_state 1\<lparr>cm_ns := ''/controller_manager'', list_controllers := True,
                   limit_lookups := [[''j1'']]\<rparr>)
   \<and> robot_joint_limits
       (init_state 1\<lparr>cm_ns := ''/controller_manager'', list_controllers := True,
          limit_lookups := [[''j1'']]\<rparr>) = []
   \<and> jtc_combo
       (init_state 1\<lparr>cm_ns := ''/controller_manager'', list_controllers := True,
          limit_lookups := [[''j1'']]\<rparr>) = []"
  by (simp add: init_state_def update_jtc_list_def running_jtc_info_def filter_by_state_def
                filter_by_type_def jtc_c_def limits_for_none_def sublist_code dict_update_def
                jtc_joint_names_def jtc_joint_names_of_def interface_joint_def)

end
